theory Spec2Isabelle
  imports Main "HOL-Library.Sublist" "HOL-Library.FSet"
begin

section \<open>JavaScript values\<close>

text \<open>
  A Number is named by its canonical text, the string that \<open>String(n)\<close> gives for it:
  \<open>42\<close>, \<open>-3\<close>, \<open>0.5\<close>, \<open>1e+21\<close>, \<open>Infinity\<close>, \<open>NaN\<close>. Different numbers have different
  texts, except that the two zeros share \<open>0\<close>. The code below never computes with a
  number: it tests numbers for truth, stores them and prints them.
\<close>

datatype number = Number (number_text: string)

text \<open>
  The values the front end handles: what \<open>JSON.parse\<close> yields, plus \<open>undefined\<close>. An
  object is the list of its own properties, each key once; none of them is a function.
  The text of a \<open>Str\<close> is program text in ASCII or text from the server in UTF-8; it is
  only compared, tested for emptiness, searched and copied.
\<close>

datatype js =
    Undef
  | Null
  | Bool bool
  | Num number
  | Str string
  | Arr "js list"
  | Obj "(string \<times> js) list"

text \<open>
  ToBoolean, as applied by \<open>!\<close>, \<open>&&\<close>, \<open>||\<close> and \<open>if\<close>: of the numbers, the zeros
  and \<open>NaN\<close> are false.
\<close>

fun truthy :: "js \<Rightarrow> bool" where
  "truthy Undef = False"
| "truthy Null = False"
| "truthy (Bool b) = b"
| "truthy (Num n) = (number_text n \<noteq> ''0'' \<and> number_text n \<noteq> ''NaN'')"
| "truthy (Str s) = (s \<noteq> [])"
| "truthy (Arr xs) = True"
| "truthy (Obj kvs) = True"

text \<open>\<open>a || b\<close>: the left operand when it is truthy, the right one otherwise.\<close>

definition js_or :: "js \<Rightarrow> js \<Rightarrow> js" where
  "js_or a b = (if truthy a then a else b)"

definition nullish :: "js \<Rightarrow> bool" where
  "nullish v = (v = Undef \<or> v = Null)"

text \<open>
  \<open>v.k\<close> on a value that is neither \<open>null\<close> nor \<open>undefined\<close>: the own property of an
  object, \<open>undefined\<close> when there is none. None of the keys read by the code below is a
  built-in property of a string, number, boolean or array, or inherited by an object.
\<close>

fun get_prop :: "js \<Rightarrow> string \<Rightarrow> js" where
  "get_prop (Obj kvs) k = (case map_of kvs k of None \<Rightarrow> Undef | Some v \<Rightarrow> v)"
| "get_prop v k = Undef"

text \<open>\<open>v?.k\<close>: \<open>undefined\<close> on \<open>null\<close> and \<open>undefined\<close>, the property otherwise.\<close>

definition opt_prop :: "js \<Rightarrow> string \<Rightarrow> js" where
  "opt_prop v k = (if nullish v then Undef else get_prop v k)"

subsection \<open>Errors\<close>

text \<open>
  An error object: its \<open>name\<close>, its \<open>message\<close> and its \<open>response\<close> property
  (\<open>undefined\<close> on every error the client itself creates).
\<close>

datatype js_error = JsError (err_name: string) (err_message: string) (err_response: js)

text \<open>
  The TypeError of converting an object that has no usable \<open>toString\<close> or \<open>valueOf\<close>
  to a string. The message text is the engine's (here V8's); only the name is fixed by
  the language.
\<close>

definition conversion_TypeError :: js_error where
  "conversion_TypeError = JsError ''TypeError'' ''Cannot convert object to primitive value'' Undef"

subsection \<open>Strings\<close>

text \<open>
  Decimal digits of a natural number: the canonical text of an integer below ten to the
  power 21, which HTTP statuses and page limits are.
\<close>

definition digit_char :: "nat \<Rightarrow> char" where
  "digit_char d = ''0123456789'' ! d"

fun digits :: "nat \<Rightarrow> string" where
  "digits n = (if n < 10 then [digit_char n] else digits (n div 10) @ [digit_char (n mod 10)])"

declare digits.simps [simp del]

fun join_comma :: "string list \<Rightarrow> string" where
  "join_comma [] = []"
| "join_comma [s] = s"
| "join_comma (s # t # ss) = s @ CHR '','' # join_comma (t # ss)"

text \<open>The results of a run of conversions, up to the first that throws.\<close>

fun collect :: "('e + 'a) list \<Rightarrow> 'e + 'a list" where
  "collect [] = Inr []"
| "collect (Inl e # rs) = Inl e"
| "collect (Inr a # rs) = (case collect rs of Inl e \<Rightarrow> Inl e | Inr as \<Rightarrow> Inr (a # as))"

text \<open>
  ToString, as applied by \<open>new Error(v)\<close>; \<open>Inl\<close> is the error it throws. A string is
  itself and a number prints its canonical text. An array joins the conversions of its
  elements with commas, from left to right, \<open>null\<close> and \<open>undefined\<close> elements giving
  nothing. An object is converted by its \<open>toString\<close> method: without an own \<open>toString\<close>
  property that is the inherited one, which gives \<open>[object Object]\<close>; an own \<open>toString\<close>
  property is not a function, the inherited \<open>valueOf\<close> returns the object itself and an
  own \<open>valueOf\<close> is no function either, so the conversion throws.
\<close>

fun ToString :: "js \<Rightarrow> js_error + string" where
  "ToString Undef = Inr ''undefined''"
| "ToString Null = Inr ''null''"
| "ToString (Bool b) = Inr (if b then ''true'' else ''false'')"
| "ToString (Num n) = Inr (number_text n)"
| "ToString (Str s) = Inr s"
| "ToString (Arr xs) =
     (case collect (map (\<lambda>x. if x = Undef \<or> x = Null then Inr [] else ToString x) xs) of
        Inl e \<Rightarrow> Inl e
      | Inr ss \<Rightarrow> Inr (join_comma ss))"
| "ToString (Obj kvs) =
     (if map_of kvs ''toString'' = None then Inr ''[object Object]''
      else Inl conversion_TypeError)"

text \<open>\<open>s.includes(sub)\<close>: \<open>sub\<close> occurs in \<open>s\<close> as a contiguous run.\<close>

fun str_includes :: "'a list \<Rightarrow> 'a list \<Rightarrow> bool" where
  "str_includes [] sub = (sub = [])"
| "str_includes (c # cs) sub = (prefix sub (c # cs) \<or> str_includes cs sub)"

text \<open>
  \<open>s.split(sep)\<close> for a one-character separator: the pieces between the separators,
  so one piece more than there are separators; the empty string gives one empty piece.
\<close>

fun str_split :: "'a \<Rightarrow> 'a list \<Rightarrow> 'a list list" where
  "str_split sep [] = [[]]"
| "str_split sep (c # cs) =
     (if c = sep then [] # str_split sep cs
      else (c # hd (str_split sep cs)) # tl (str_split sep cs))"

subsection \<open>Text typed by the user\<close>

text \<open>
  What the user types into a form is kept as JavaScript has it, a sequence of UTF-16
  code units, because \<open>trim\<close> depends on them. \<open>code_units\<close> gives the code units of an
  ASCII literal; the slash is code unit 47.
\<close>

type_synonym utf16 = "nat list"

definition code_units :: "string \<Rightarrow> utf16" where
  "code_units s = map of_char s"

definition slash :: nat where
  "slash = 47"

text \<open>
  The white space and line terminators of the language: tab, line feed, vertical tab,
  form feed, carriage return, space, no-break space, U+1680, U+2000 to U+200A, the line
  and paragraph separators U+2028 and U+2029, U+202F, U+205F, U+3000 and the byte order
  mark U+FEFF.
\<close>

definition is_white_space :: "nat \<Rightarrow> bool" where
  "is_white_space c =
     (c \<in> {9, 10, 11, 12, 13, 32, 160, 5760, 8232, 8233, 8239, 8287, 12288, 65279}
      \<or> (8192 \<le> c \<and> c \<le> 8202))"

text \<open>\<open>s.trim()\<close> removes white space and line terminators at both ends.\<close>

definition trim :: "utf16 \<Rightarrow> utf16" where
  "trim s = rev (dropWhile is_white_space (rev (dropWhile is_white_space s)))"

section \<open>Stage constants\<close>

text \<open>The \<open>STAGES\<close> object and \<open>STAGE_ORDER\<close> of the constants module.\<close>

definition STAGES_DISCOVER :: string where "STAGES_DISCOVER = ''discover''"
definition STAGES_DEFINE :: string where "STAGES_DEFINE = ''define''"
definition STAGES_DESIGN :: string where "STAGES_DESIGN = ''design''"
definition STAGES_DEVELOP :: string where "STAGES_DEVELOP = ''develop''"
definition STAGES_TEST :: string where "STAGES_TEST = ''test''"
definition STAGES_DEPLOY :: string where "STAGES_DEPLOY = ''deploy''"
definition STAGES_MAINTAIN :: string where "STAGES_MAINTAIN = ''maintain''"

definition STAGE_ORDER :: "string list" where
  "STAGE_ORDER =
     [STAGES_DISCOVER, STAGES_DEFINE, STAGES_DESIGN, STAGES_DEVELOP,
      STAGES_TEST, STAGES_DEPLOY, STAGES_MAINTAIN]"

text \<open>The \<open>stages\<close> array exported by StageIndicator.jsx: id and display name.\<close>

record stage_def =
  stage_id :: string
  stage_name :: string

definition stages :: "stage_def list" where
  "stages =
     [\<lparr>stage_id = ''discover'', stage_name = ''Discover''\<rparr>,
      \<lparr>stage_id = ''define'', stage_name = ''Define''\<rparr>,
      \<lparr>stage_id = ''design'', stage_name = ''Design''\<rparr>,
      \<lparr>stage_id = ''develop'', stage_name = ''Develop''\<rparr>,
      \<lparr>stage_id = ''test'', stage_name = ''Test''\<rparr>,
      \<lparr>stage_id = ''build'', stage_name = ''Build''\<rparr>,
      \<lparr>stage_id = ''deploy'', stage_name = ''deploy''\<rparr>]"

text \<open>
  WorkspaceView.jsx writes the same literal \<open>stages\<close> array in \<open>updateStageData\<close>,
  \<open>getProjectFiles\<close>, \<open>isStageAccessible\<close> and \<open>getPreviousStageArtifacts\<close>.
\<close>

definition updateStageData_stages :: "string list" where
  "updateStageData_stages =
     [''discover'', ''define'', ''design'', ''develop'', ''test'', ''build'', ''deploy'']"

definition getProjectFiles_stages :: "string list" where
  "getProjectFiles_stages =
     [''discover'', ''define'', ''design'', ''develop'', ''test'', ''build'', ''deploy'']"

definition isStageAccessible_stages :: "string list" where
  "isStageAccessible_stages =
     [''discover'', ''define'', ''design'', ''develop'', ''test'', ''build'', ''deploy'']"

definition getPreviousStageArtifacts_stages :: "string list" where
  "getPreviousStageArtifacts_stages =
     [''discover'', ''define'', ''design'', ''develop'', ''test'', ''build'', ''deploy'']"

text \<open>
  Two more components write the order down: \<open>stageOrder\<close> in StageGatePanel, and
  \<open>stageOrder\<close> in \<open>getProgressPercent\<close> of ProjectDashboard.
\<close>

definition StageGatePanel_stageOrder :: "string list" where
  "StageGatePanel_stageOrder =
     [''discover'', ''define'', ''design'', ''develop'', ''test'', ''build'', ''deploy'']"

definition getProgressPercent_stageOrder :: "string list" where
  "getProgressPercent_stageOrder =
     [''discover'', ''define'', ''design'', ''develop'', ''testing'', ''build'', ''deploy'']"

section \<open>Test stage panel\<close>

text \<open>
  \<open>toggleSuite\<close> copies the set of expanded suites, deletes the suite when the copy has
  it and adds it otherwise, and returns the copy as the new state.
\<close>

definition toggleSuite :: "'a \<Rightarrow> 'a fset \<Rightarrow> 'a fset" where
  "toggleSuite suiteId prev =
     (let newSet = prev
      in if suiteId |\<in>| newSet then newSet |-| {|suiteId|} else finsert suiteId newSet)"

section \<open>API client\<close>

text \<open>\<open>new Error(m)\<close> for a string \<open>m\<close>.\<close>

definition new_Error :: "string \<Rightarrow> js_error" where
  "new_Error m = JsError ''Error'' m Undef"

text \<open>
  What \<open>throw new Error(v)\<close> throws for any value \<open>v\<close>: the constructor converts \<open>v\<close>
  to a string unless it is \<open>undefined\<close>, so it is the error with that message, or the
  error of the conversion.
\<close>

definition throw_new_Error :: "js \<Rightarrow> js_error" where
  "throw_new_Error v =
     (if v = Undef then new_Error []
      else (case ToString v of Inl e \<Rightarrow> e | Inr m \<Rightarrow> new_Error m))"

text \<open>
  The TypeError of reading property \<open>k\<close> of \<open>null\<close> or \<open>undefined\<close>. The message text is
  the engine's (here V8's); only the name is fixed by the language.
\<close>

definition property_TypeError :: "js \<Rightarrow> string \<Rightarrow> js_error" where
  "property_TypeError v k =
     JsError ''TypeError''
       (''Cannot read properties of '' @ (if v = Null then ''null'' else ''undefined'')
          @ '' (reading '' @ [char_of (39::nat)] @ k
          @ [char_of (39::nat)] @ '')'')
       Undef"

text \<open>What awaiting a promise gives: its value, or the error it rejects with.\<close>

datatype 'a promise = Resolved 'a | Rejected js_error

text \<open>
  A fetch response: \<open>response.ok\<close>, \<open>response.status\<close> (an integer of at most five
  digits), \<open>response.headers.get('content-type')\<close> (\<open>None\<close> for \<open>null\<close>), and what
  \<open>response.text()\<close> and \<open>response.json()\<close> settle to.
\<close>

record response =
  resp_ok :: bool
  resp_status :: nat
  resp_content_type :: "string option"
  resp_text :: "string promise"
  resp_json :: "js promise"

text \<open>A request body is always \<open>JSON.stringify\<close> of a value; the value is kept.\<close>

datatype request_body = JSON_stringify js

text \<open>
  The \<open>options\<close> argument of \<open>request\<close>, with its properties \<open>method\<close>, \<open>headers\<close>
  and \<open>body\<close>; \<open>None\<close> is an absent property.
\<close>

record options =
  req_method :: "string option"
  req_headers :: "(string \<times> string) list option"
  req_body :: "request_body option"

record fetch_call =
  url :: string
  config :: options

definition no_options :: options where
  "no_options = \<lparr>req_method = None, req_headers = None, req_body = None\<rparr>"

text \<open>
  The \<open>config\<close> built by \<open>request\<close>: a \<open>headers\<close> object holding the JSON content type
  and the caller's headers, then every property of \<open>options\<close> spread over it, so that a
  \<open>headers\<close> property of \<open>options\<close> replaces the merged one.
\<close>

definition request_config :: "options \<Rightarrow> options" where
  "request_config opts =
     \<lparr>req_method = req_method opts,
      req_headers = Some (case req_headers opts of
                        None \<Rightarrow> [(''Content-Type'', ''application/json'')]
                      | Some h \<Rightarrow> h),
      req_body = req_body opts\<rparr>"

text \<open>The HTTP method fetch uses: GET unless the config names one.\<close>

definition http_method :: "fetch_call \<Rightarrow> string" where
  "http_method c = (case req_method (config c) of None \<Rightarrow> ''GET'' | Some m \<Rightarrow> m)"

text \<open>\<open>contentType && contentType.includes('application/json')\<close>, used as a condition.\<close>

definition is_json_content_type :: "string option \<Rightarrow> bool" where
  "is_json_content_type contentType =
     (case contentType of
        None \<Rightarrow> False
      | Some ct \<Rightarrow> ct \<noteq> [] \<and> str_includes ct ''application/json'')"

text \<open>The body of the \<open>try\<close> block of \<open>request\<close>, once fetch has given a response.\<close>

definition request_try :: "response \<Rightarrow> js promise" where
  "request_try response =
     (let contentType = resp_content_type response
      in if is_json_content_type contentType
         then (case resp_json response of
                 Rejected e \<Rightarrow> Rejected e
               | Resolved data \<Rightarrow>
                   if \<not> resp_ok response
                   then (if nullish data then Rejected (property_TypeError data ''detail'')
                         else Rejected (throw_new_Error
                                (js_or (get_prop data ''detail'')
                                  (js_or (get_prop data ''message'')
                                    (Str (''HTTP error! status: ''
                                            @ digits (resp_status response)))))))
                   else Resolved data)
         else (case resp_text response of
                 Rejected e \<Rightarrow> Rejected e
               | Resolved text \<Rightarrow>
                   Resolved (Obj [(''message'', Str text),
                                  (''status'', Num (Number (digits (resp_status response))))])))"

text \<open>The \<open>catch\<close> block of \<open>request\<close>.\<close>

definition request_catch :: "string \<Rightarrow> js_error \<Rightarrow> js promise" where
  "request_catch baseURL error =
     (if err_name error = ''TypeError'' \<and> err_message error = ''Failed to fetch''
      then Rejected (new_Error
             (''Cannot connect to server. Is the backend running on '' @ baseURL @ ''?''))
      else Rejected error)"

text \<open>\<open>request\<close> from the point where the fetch promise settles.\<close>

definition request_settle :: "string \<Rightarrow> response promise \<Rightarrow> js promise" where
  "request_settle baseURL fetched =
     (case fetched of
        Rejected e \<Rightarrow> request_catch baseURL e
      | Resolved response \<Rightarrow>
          (case request_try response of
             Rejected e \<Rightarrow> request_catch baseURL e
           | Resolved v \<Rightarrow> Resolved v))"

text \<open>
  \<open>ApiService.request\<close>: the fetch call it issues, and what it settles to. \<open>fetch\<close> is
  the platform function, \<open>baseURL\<close> the field set by the constructor.
\<close>

definition request ::
  "string \<Rightarrow> (fetch_call \<Rightarrow> response promise) \<Rightarrow> string \<Rightarrow> options \<Rightarrow> fetch_call \<times> js promise"
where
  "request baseURL fetch endpoint opts =
     (let call = \<lparr>url = baseURL @ endpoint, config = request_config opts\<rparr>
      in (call, request_settle baseURL (fetch call)))"

subsection \<open>Chat endpoints\<close>

text \<open>An argument left out (or \<open>undefined\<close>) is \<open>None\<close> and takes the default.\<close>

definition sendChatMessage ::
  "string \<Rightarrow> (fetch_call \<Rightarrow> response promise) \<Rightarrow> string \<Rightarrow> string \<Rightarrow> string \<Rightarrow> string option
     \<Rightarrow> fetch_call \<times> js promise"
where
  "sendChatMessage baseURL fetch projectId stage message userId =
     request baseURL fetch ''/api/chat/send''
       \<lparr>req_method = Some ''POST'', req_headers = None,
        req_body = Some (JSON_stringify (Obj
          [(''project_id'', Str projectId),
           (''stage'', Str stage),
           (''message'', Str message),
           (''user_id'', Str (case userId of None \<Rightarrow> ''user'' | Some u \<Rightarrow> u))]))\<rparr>"

definition getChatHistory ::
  "string \<Rightarrow> (fetch_call \<Rightarrow> response promise) \<Rightarrow> string \<Rightarrow> string \<Rightarrow> nat option
     \<Rightarrow> fetch_call \<times> js promise"
where
  "getChatHistory baseURL fetch projectId stage limit =
     request baseURL fetch
       (''/api/chat/'' @ projectId @ ''/'' @ stage @ ''/history?limit=''
          @ digits (case limit of None \<Rightarrow> 50 | Some n \<Rightarrow> n))
       no_options"

definition clearChatHistory ::
  "string \<Rightarrow> (fetch_call \<Rightarrow> response promise) \<Rightarrow> string \<Rightarrow> string \<Rightarrow> fetch_call \<times> js promise"
where
  "clearChatHistory baseURL fetch projectId stage =
     request baseURL fetch
       (''/api/chat/'' @ projectId @ ''/'' @ stage @ ''/history'')
       \<lparr>req_method = Some ''DELETE'', req_headers = None, req_body = None\<rparr>"

section \<open>Workspace view\<close>

text \<open>
  An entry of \<open>stageData\<close>: \<open>{ status, itemCount }\<close>. An entry made by spreading a
  missing one has no \<open>itemCount\<close> property (\<open>None\<close>).
\<close>

record stage_entry =
  status :: string
  itemCount :: "nat option"

record artifact =
  art_artifact_id :: js
  art_name :: js
  art_content :: js
  art_created_at :: js
  art_created_by :: string
  art_stage :: string

record selected_file =
  file_id :: js
  file_name :: js
  file_content :: js
  lastEditedBy :: string
  lastEditedTime :: string

text \<open>
  The text of a chat message. The notice of generated tickets is the template
  \<open>Generated ${result.tickets?.length || 0} development tickets!\<close> behind a check
  mark; it is built from \<open>result.tickets\<close> when the state update runs, and is kept as
  that value.
\<close>

datatype chat_content = Plain string | Generated_tickets js

record chat_message =
  msg_id :: int
  msg_author :: string
  msg_content :: chat_content
  msg_time :: string
  msg_isAI :: bool

text \<open>The state hooks of WorkspaceView that the handlers below read or write.\<close>

record workspace =
  showGitHubModal :: bool
  gitHubConfig :: js
  isCheckingGitHub :: bool
  activeTab :: string
  selectedFile :: "selected_file option"
  fileContent :: js
  currentStage :: string
  viewingStage :: string
  developTickets :: js
  selectedTicket :: js
  artifacts :: "string \<rightharpoonup> artifact list"
  stageData :: "string \<rightharpoonup> stage_entry"
  chatMessages :: "chat_message list"

text \<open>The initial values given to \<open>useState\<close>.\<close>

definition initial_workspace :: workspace where
  "initial_workspace =
     \<lparr>showGitHubModal = False,
      gitHubConfig = Null,
      isCheckingGitHub = False,
      activeTab = ''workspace'',
      selectedFile = None,
      fileContent = Str [],
      currentStage = ''discover'',
      viewingStage = ''discover'',
      developTickets = Null,
      selectedTicket = Null,
      artifacts =
        [''discover'' \<mapsto> [], ''define'' \<mapsto> [], ''design'' \<mapsto> [], ''develop'' \<mapsto> [],
         ''test'' \<mapsto> [], ''build'' \<mapsto> [], ''deploy'' \<mapsto> []],
      stageData =
        [''discover'' \<mapsto> \<lparr>status = ''active'', itemCount = Some 0\<rparr>,
         ''define'' \<mapsto> \<lparr>status = ''pending'', itemCount = Some 0\<rparr>,
         ''design'' \<mapsto> \<lparr>status = ''pending'', itemCount = Some 0\<rparr>,
         ''develop'' \<mapsto> \<lparr>status = ''pending'', itemCount = Some 0\<rparr>,
         ''test'' \<mapsto> \<lparr>status = ''pending'', itemCount = Some 0\<rparr>,
         ''build'' \<mapsto> \<lparr>status = ''pending'', itemCount = Some 0\<rparr>,
         ''deploy'' \<mapsto> \<lparr>status = ''pending'', itemCount = Some 0\<rparr>],
      chatMessages =
        [\<lparr>msg_id = 1, msg_author = ''System'', msg_content = Plain ''Welcome to SDLC Studio!'',
          msg_time = ''Just now'', msg_isAI = True\<rparr>]\<rparr>"

text \<open>
  What StageIndicator shows for a stage: \<open>stageData[id]?.status || 'pending'\<close> and
  \<open>stageData[id]?.itemCount || 0\<close>.
\<close>

definition getStageStatus :: "(string \<rightharpoonup> stage_entry) \<Rightarrow> string \<Rightarrow> string" where
  "getStageStatus sd stageId =
     (case sd stageId of
        None \<Rightarrow> ''pending''
      | Some e \<Rightarrow> if status e \<noteq> [] then status e else ''pending'')"

definition getStageItemCount :: "(string \<rightharpoonup> stage_entry) \<Rightarrow> string \<Rightarrow> nat" where
  "getStageItemCount sd stageId =
     (case sd stageId of
        None \<Rightarrow> 0
      | Some e \<Rightarrow> (case itemCount e of None \<Rightarrow> 0 | Some n \<Rightarrow> n))"

text \<open>\<open>stageData[id]?.itemCount\<close> itself, \<open>None\<close> for \<open>undefined\<close>.\<close>

definition opt_itemCount :: "(string \<rightharpoonup> stage_entry) \<Rightarrow> string \<Rightarrow> nat option" where
  "opt_itemCount sd stageId = (case sd stageId of None \<Rightarrow> None | Some e \<Rightarrow> itemCount e)"

text \<open>
  \<open>handleGenerationComplete(result)\<close>. \<open>now_ms\<close> is \<open>Date.now()\<close> and \<open>now\<close> is
  \<open>new Date().toLocaleString()\<close> at the call. Reading \<open>result.stage\<close> throws when
  \<open>result\<close> is \<open>null\<close> or \<open>undefined\<close>; the branches are tried in the source's order.
\<close>

definition handleGenerationComplete :: "int \<Rightarrow> string \<Rightarrow> js \<Rightarrow> workspace \<Rightarrow> js_error + workspace" where
  "handleGenerationComplete now_ms now result st =
     (if nullish result then Inl (property_TypeError result ''stage'')
      else if get_prop result ''stage'' = Str ''develop'' \<or> truthy (get_prop result ''tickets'')
      then Inr (st
        \<lparr>developTickets :=
           Obj [(''tickets'', get_prop result ''tickets''),
                (''summary'', get_prop result ''summary''),
                (''artifact_id'', get_prop result ''artifact_id'')],
         chatMessages := chatMessages st @
           [\<lparr>msg_id = now_ms, msg_author = ''AI'',
             msg_content = Generated_tickets (get_prop result ''tickets''),
             msg_time = ''Just now'', msg_isAI = True\<rparr>]\<rparr>)
      else if truthy (get_prop result ''problem_statement'')
            \<and> truthy (get_prop result ''stakeholder_analysis'')
      then (let ps = get_prop result ''problem_statement'';
                sa = get_prop result ''stakeholder_analysis'';
                newArtifacts =
                  [\<lparr>art_artifact_id = get_prop ps ''artifact_id'',
                    art_name = Str ''Problem Statement'',
                    art_content = get_prop ps ''content'',
                    art_created_at = get_prop ps ''created_at'',
                    art_created_by = ''AI Business Analyst'',
                    art_stage = ''discover''\<rparr>,
                   \<lparr>art_artifact_id = get_prop sa ''artifact_id'',
                    art_name = Str ''Stakeholder Analysis'',
                    art_content = get_prop sa ''content'',
                    art_created_at = get_prop sa ''created_at'',
                    art_created_by = ''AI Business Analyst'',
                    art_stage = ''discover''\<rparr>]
            in Inr (st
              \<lparr>artifacts := (artifacts st)(''discover'' \<mapsto> newArtifacts),
               stageData := (stageData st)
                 (''discover'' \<mapsto> \<lparr>status = ''passed'', itemCount = Some 2\<rparr>,
                  ''define'' \<mapsto> \<lparr>status = ''active'', itemCount = Some 0\<rparr>),
               currentStage := ''define'',
               selectedFile := Some
                 \<lparr>file_id = get_prop ps ''artifact_id'',
                  file_name = Str ''Problem Statement'',
                  file_content = get_prop ps ''content'',
                  lastEditedBy = ''AI Business Analyst'',
                  lastEditedTime = now\<rparr>,
               fileContent := get_prop ps ''content''\<rparr>))
      else if truthy (get_prop result ''brd'') \<and> truthy (get_prop result ''user_stories'')
      then (let brd = get_prop result ''brd'';
                us = get_prop result ''user_stories'';
                newArtifacts =
                  [\<lparr>art_artifact_id = get_prop brd ''artifact_id'',
                    art_name = Str ''Business Requirements Document'',
                    art_content = get_prop brd ''content'',
                    art_created_at = get_prop brd ''created_at'',
                    art_created_by = ''AI Technical Writer'',
                    art_stage = ''define''\<rparr>,
                   \<lparr>art_artifact_id = get_prop us ''artifact_id'',
                    art_name = Str ''User Stories'',
                    art_content = get_prop us ''content'',
                    art_created_at = get_prop us ''created_at'',
                    art_created_by = ''AI Technical Writer'',
                    art_stage = ''define''\<rparr>]
            in Inr (st
              \<lparr>artifacts := (artifacts st)(''define'' \<mapsto> newArtifacts),
               stageData := (stageData st)
                 (''define'' \<mapsto> \<lparr>status = ''passed'', itemCount = Some 2\<rparr>,
                  ''design'' \<mapsto> \<lparr>status = ''active'', itemCount = Some 0\<rparr>),
               currentStage := ''design'',
               selectedFile := Some
                 \<lparr>file_id = get_prop brd ''artifact_id'',
                  file_name = Str ''Business Requirements Document'',
                  file_content = get_prop brd ''content'',
                  lastEditedBy = ''AI Technical Writer'',
                  lastEditedTime = now\<rparr>,
               fileContent := get_prop brd ''content''\<rparr>))
      else if truthy (get_prop result ''architecture'')
      then (let arch = get_prop result ''architecture'';
                newArtifacts =
                  [\<lparr>art_artifact_id = get_prop arch ''artifact_id'',
                    art_name = js_or (get_prop arch ''name'') (Str ''Solution Architecture Document''),
                    art_content = get_prop arch ''content'',
                    art_created_at = get_prop arch ''created_at'',
                    art_created_by = ''AI Solution Architect'',
                    art_stage = ''design''\<rparr>]
            in Inr (st
              \<lparr>artifacts := (artifacts st)(''design'' \<mapsto> newArtifacts),
               stageData := (stageData st)
                 (''design'' \<mapsto> \<lparr>status = ''passed'', itemCount = Some 1\<rparr>,
                  ''develop'' \<mapsto> \<lparr>status = ''active'', itemCount = Some 0\<rparr>),
               currentStage := ''develop'',
               selectedFile := Some
                 \<lparr>file_id = get_prop arch ''artifact_id'',
                  file_name = js_or (get_prop arch ''name'') (Str ''Solution Architecture Document''),
                  file_content = get_prop arch ''content'',
                  lastEditedBy = ''AI Solution Architect'',
                  lastEditedTime = now\<rparr>,
               fileContent := get_prop arch ''content''\<rparr>))
      else Inr st)"

text \<open>\<open>{ ...entry, status: s }\<close>, where spreading a missing entry adds nothing.\<close>

definition spread_status :: "stage_entry option \<Rightarrow> string \<Rightarrow> stage_entry" where
  "spread_status entry s =
     (case entry of
        None \<Rightarrow> \<lparr>status = s, itemCount = None\<rparr>
      | Some e \<Rightarrow> e\<lparr>status := s\<rparr>)"

text \<open>
  \<open>handleMoveToNextStage(nextStage)\<close>: the stage data is copied, the entry of the
  current stage is rewritten first and the entry of \<open>nextStage\<close> second.
\<close>

definition handleMoveToNextStage :: "string \<Rightarrow> workspace \<Rightarrow> workspace" where
  "handleMoveToNextStage nextStage st =
     st\<lparr>currentStage := nextStage,
        viewingStage := nextStage,
        activeTab := ''workspace'',
        stageData :=
          (let newData = stageData st;
               newData1 = newData(currentStage st \<mapsto> spread_status (newData (currentStage st)) ''passed'');
               newData2 = newData1(nextStage \<mapsto> spread_status (newData1 nextStage) ''active'')
           in newData2)\<rparr>"

text \<open>
  The calls the components make on the \<open>api\<close> object they are given; the components
  below take the answers as a function of the call. \<open>SaveGitHubConfig\<close> carries the
  project id and the fields \<open>github_token\<close> and \<open>github_repo\<close> of the configuration
  object, \<open>GenerateDiscover\<close> the project id, the idea and the author.
\<close>

datatype api_call =
    GenerateDiscover string utf16 string
  | SaveGitHubConfig string utf16 utf16
  | GetGitHubConfig string
  | GetDevelopTickets string
  | ImplementTicket string js string

text \<open>
  \<open>checkGitHubConfig\<close>: nothing without a project id; otherwise the configuration the
  API returns, or \<open>{ is_configured: false }\<close> when the call fails, stored and returned.
\<close>

definition checkGitHubConfig ::
  "string \<Rightarrow> (api_call \<Rightarrow> js promise) \<Rightarrow> workspace \<Rightarrow> js \<times> workspace"
where
  "checkGitHubConfig projectId api st =
     (if projectId = [] then (Undef, st)
      else (case api (GetGitHubConfig projectId) of
              Resolved cfg \<Rightarrow> (cfg, st\<lparr>gitHubConfig := cfg, isCheckingGitHub := False\<rparr>)
            | Rejected err \<Rightarrow>
                (Obj [(''is_configured'', Bool False)],
                 st\<lparr>gitHubConfig := Obj [(''is_configured'', Bool False)],
                    isCheckingGitHub := False\<rparr>)))"

text \<open>
  The effect that runs when \<open>viewingStage\<close> changes: on the develop stage the
  configuration is checked and the modal is opened unless \<open>config?.is_configured\<close>.
\<close>

definition viewingStage_effect ::
  "string \<Rightarrow> (api_call \<Rightarrow> js promise) \<Rightarrow> workspace \<Rightarrow> workspace"
where
  "viewingStage_effect projectId api st =
     (if viewingStage st = ''develop''
      then (case checkGitHubConfig projectId api st of
              (cfg, st1) \<Rightarrow>
                if \<not> truthy (opt_prop cfg ''is_configured'')
                then st1\<lparr>showGitHubModal := True\<rparr>
                else st1)
      else st)"

section \<open>Develop stage panel\<close>

text \<open>The props and state of DevelopStagePanel that decide what it renders.\<close>

record develop_panel =
  dp_projectId :: string
  dp_githubConfig :: js
  dp_tickets :: "js list"
  dp_isLoadingTickets :: bool
  dp_isImplementing :: bool
  dp_implementingKey :: js

text \<open>\<open>githubConfig?.is_configured || false\<close>, used as a condition.\<close>

definition isConfigured :: "js \<Rightarrow> bool" where
  "isConfigured githubConfig = truthy (js_or (opt_prop githubConfig ''is_configured'') (Bool False))"

text \<open>The tickets section: the connect prompt, the empty notice, or the ticket list.\<close>

datatype tickets_section = ConnectPrompt | NoTicketsYet | TicketListSection "js list"

definition render_tickets_section :: "develop_panel \<Rightarrow> tickets_section" where
  "render_tickets_section p =
     (if \<not> isConfigured (dp_githubConfig p) then ConnectPrompt
      else if dp_tickets p = [] then NoTicketsYet
      else TicketListSection (dp_tickets p))"

text \<open>
  TicketCard: the implement button of a ticket is enabled, and its click handler calls
  \<open>onImplement\<close>, when the ticket is still to do and nothing is being implemented.
\<close>

definition canImplement :: "bool \<Rightarrow> js \<Rightarrow> bool" where
  "canImplement isImplementing ticket =
     (js_or (get_prop ticket ''status'') (Str ''todo'') = Str ''todo'' \<and> \<not> isImplementing)"

definition implement_button_disabled :: "bool \<Rightarrow> js \<Rightarrow> js \<Rightarrow> bool" where
  "implement_button_disabled isImplementing implementingKey ticket =
     (\<not> canImplement isImplementing ticket \<or> implementingKey = get_prop ticket ''key'')"

text \<open>What the user can click on the panel.\<close>

datatype panel_click =
    ClickConnectGitHub
  | ClickImplement js
  | ClickRefreshTickets

text \<open>
  The API calls a click starts. A control that is not rendered, or is disabled, starts
  none: the implement button exists only on the cards of the ticket list, the refresh
  button only below a non-empty list of a configured panel. Only
  \<open>handleImplementTicket\<close> calls \<open>api.implementTicket\<close>.
\<close>

definition panel_click_calls :: "develop_panel \<Rightarrow> panel_click \<Rightarrow> api_call list" where
  "panel_click_calls p c =
     (case c of
        ClickConnectGitHub \<Rightarrow> []
      | ClickImplement ticket \<Rightarrow>
          (case render_tickets_section p of
             TicketListSection ts \<Rightarrow>
               if ticket \<in> set ts
                  \<and> \<not> implement_button_disabled (dp_isImplementing p) (dp_implementingKey p) ticket
                  \<and> canImplement (dp_isImplementing p) ticket
               then [ImplementTicket (dp_projectId p) (get_prop ticket ''key'') ''user'']
               else []
           | _ \<Rightarrow> [])
      | ClickRefreshTickets \<Rightarrow>
          if isConfigured (dp_githubConfig p) \<and> dp_tickets p \<noteq> [] \<and> \<not> dp_isLoadingTickets p
          then [GetDevelopTickets (dp_projectId p)]
          else [])"

text \<open>The effect on mount: \<open>loadTickets\<close>.\<close>

definition panel_mount_calls :: "develop_panel \<Rightarrow> api_call list" where
  "panel_mount_calls p = [GetDevelopTickets (dp_projectId p)]"

fun is_implement_call :: "api_call \<Rightarrow> bool" where
  "is_implement_call (ImplementTicket pid k u) = True"
| "is_implement_call c = False"

section \<open>Discover input panel\<close>

record discover_panel =
  userIdea :: utf16
  isGenerating :: bool
  generationStep :: nat
  gen_error :: "string option"

text \<open>
  What a run of a handler leaves behind: the panel state, the API calls made, and the
  arguments \<open>onGenerationComplete\<close> was called with.
\<close>

record generate_run =
  run_panel :: discover_panel
  run_calls :: "api_call list"
  run_completed :: "js list"

text \<open>The \<open>catch\<close> and \<open>finally\<close> blocks of \<open>handleGenerate\<close>.\<close>

definition handleGenerate_catch :: "js_error \<Rightarrow> discover_panel \<Rightarrow> discover_panel" where
  "handleGenerate_catch err p =
     p\<lparr>gen_error := Some (if err_message err \<noteq> [] then err_message err
                          else ''Generation failed. Please try again.''),
       isGenerating := False\<rparr>"

text \<open>
  \<open>handleGenerate\<close>. \<open>onGenerationComplete\<close> is an optional prop; called, it returns
  or throws (\<open>Some\<close> error). The two half-second pauses only order the steps.
\<close>

definition handleGenerate ::
  "string \<Rightarrow> (api_call \<Rightarrow> js promise) \<Rightarrow> (js \<Rightarrow> js_error option) option \<Rightarrow> discover_panel
     \<Rightarrow> generate_run"
where
  "handleGenerate projectId api onGenerationComplete p =
     (if trim (userIdea p) = [] \<or> isGenerating p
      then \<lparr>run_panel = p, run_calls = [], run_completed = []\<rparr>
      else (let p1 = p\<lparr>isGenerating := True, gen_error := None, generationStep := 0\<rparr>;
                p2 = p1\<lparr>generationStep := 1\<rparr>;
                call = GenerateDiscover projectId (userIdea p) ''demo_user''
            in case api call of
                 Rejected err \<Rightarrow>
                   \<lparr>run_panel = handleGenerate_catch err p2, run_calls = [call],
                    run_completed = []\<rparr>
               | Resolved result \<Rightarrow>
                   (let p3 = p2\<lparr>generationStep := 2\<rparr>\<lparr>generationStep := 3\<rparr>
                    in case onGenerationComplete of
                         None \<Rightarrow>
                           \<lparr>run_panel = p3\<lparr>isGenerating := False\<rparr>, run_calls = [call],
                            run_completed = []\<rparr>
                       | Some cb \<Rightarrow>
                           (case cb result of
                              None \<Rightarrow>
                                \<lparr>run_panel = p3\<lparr>isGenerating := False\<rparr>, run_calls = [call],
                                 run_completed = [result]\<rparr>
                            | Some err \<Rightarrow>
                                \<lparr>run_panel = handleGenerate_catch err p3, run_calls = [call],
                                 run_completed = [result]\<rparr>))))"

section \<open>GitHub configuration modal\<close>

record github_modal =
  token :: utf16
  repo :: utf16
  isLoading :: bool
  modal_error :: js

text \<open>
  What a submit leaves behind: the modal state, the API calls made, the arguments
  \<open>onSuccess\<close> was called with and the number of calls of \<open>onClose\<close>. The prop
  \<open>onSuccess\<close>, called, returns or throws (\<open>Some\<close> error).
\<close>

record submit_run =
  sub_modal :: github_modal
  sub_calls :: "api_call list"
  sub_onSuccess :: "js list"
  sub_onClose :: nat

text \<open>
  The \<open>catch\<close> and \<open>finally\<close> blocks of \<open>handleSubmit\<close>:
  \<open>err.response?.data?.detail || err.message || 'Failed to configure GitHub'\<close>.
\<close>

definition handleSubmit_catch :: "js_error \<Rightarrow> github_modal \<Rightarrow> github_modal" where
  "handleSubmit_catch err m =
     m\<lparr>modal_error :=
         js_or (opt_prop (opt_prop (err_response err) ''data'') ''detail'')
           (js_or (Str (err_message err)) (Str ''Failed to configure GitHub'')),
       isLoading := False\<rparr>"

definition handleSubmit ::
  "string \<Rightarrow> (api_call \<Rightarrow> js promise) \<Rightarrow> (js \<Rightarrow> js_error option) \<Rightarrow> github_modal
     \<Rightarrow> submit_run"
where
  "handleSubmit projectId api onSuccess m =
     (let m1 = m\<lparr>modal_error := Null, isLoading := True\<rparr>
      in if trim (token m) = []
         then \<lparr>sub_modal = handleSubmit_catch (new_Error ''GitHub token is required'') m1,
               sub_calls = [], sub_onSuccess = [], sub_onClose = 0\<rparr>
         else if trim (repo m) = []
         then \<lparr>sub_modal = handleSubmit_catch (new_Error ''Repository is required'') m1,
               sub_calls = [], sub_onSuccess = [], sub_onClose = 0\<rparr>
         else if \<not> str_includes (repo m) [slash] \<or> length (str_split slash (repo m)) \<noteq> 2
         then \<lparr>sub_modal = handleSubmit_catch
                 (new_Error (''Repository must be in format '' @ [char_of (34::nat)]
                    @ ''owner/repo'' @ [char_of (34::nat)])) m1,
               sub_calls = [], sub_onSuccess = [], sub_onClose = 0\<rparr>
         else (let call = SaveGitHubConfig projectId (trim (token m)) (trim (repo m))
               in case api call of
                    Rejected err \<Rightarrow>
                      \<lparr>sub_modal = handleSubmit_catch err m1, sub_calls = [call],
                       sub_onSuccess = [], sub_onClose = 0\<rparr>
                  | Resolved response \<Rightarrow>
                      if nullish response
                      then \<lparr>sub_modal = handleSubmit_catch (property_TypeError response ''status'') m1,
                            sub_calls = [call], sub_onSuccess = [], sub_onClose = 0\<rparr>
                      else if get_prop response ''status'' = Str ''success''
                      then (case onSuccess (get_prop response ''data'') of
                              None \<Rightarrow>
                                \<lparr>sub_modal = m1\<lparr>isLoading := False\<rparr>, sub_calls = [call],
                                 sub_onSuccess = [get_prop response ''data''], sub_onClose = 1\<rparr>
                            | Some err \<Rightarrow>
                                \<lparr>sub_modal = handleSubmit_catch err m1, sub_calls = [call],
                                 sub_onSuccess = [get_prop response ''data''], sub_onClose = 0\<rparr>)
                      else \<lparr>sub_modal = m1\<lparr>isLoading := False\<rparr>, sub_calls = [call],
                            sub_onSuccess = [], sub_onClose = 0\<rparr>))"

section \<open>Properties\<close>

subsection \<open>Helper facts\<close>

lemma digits_50: "digits 50 = ''50''"
  by (simp add: digits.simps digit_char_def)

lemma collect_Inl: "collect rs = Inl e \<Longrightarrow> Inl e \<in> set rs"
  by (induction rs rule: collect.induct) (auto split: sum.splits)

text \<open>The only error a conversion to a string throws is the TypeError of an object.\<close>

lemma ToString_error: "ToString v = Inl e \<Longrightarrow> e = conversion_TypeError"
proof (induction v arbitrary: e rule: ToString.induct)
  case (6 xs)
  from "6.prems" have
    "collect (map (\<lambda>x. if x = Undef \<or> x = Null then Inr [] else ToString x) xs) = Inl e"
    by (simp split: sum.splits)
  then have "Inl e \<in> set (map (\<lambda>x. if x = Undef \<or> x = Null then Inr [] else ToString x) xs)"
    by (rule collect_Inl)
  then obtain x where x: "x \<in> set xs" "\<not> (x = Undef \<or> x = Null)" "ToString x = Inl e"
    by (auto split: if_splits)
  then show ?case
    using "6.IH" by blast
next
  case (7 kvs)
  then show ?case by (simp split: if_splits)
qed simp_all

lemma request_catch_new_Error: "request_catch baseURL (new_Error m) = Rejected (new_Error m)"
  by (simp add: request_catch_def new_Error_def)

lemma request_catch_throw_new_Error:
  "request_catch baseURL (throw_new_Error v) = Rejected (throw_new_Error v)"
proof (cases "ToString v")
  case (Inl e)
  then have "e = conversion_TypeError" by (rule ToString_error)
  then show ?thesis
    using Inl
    by (simp add: throw_new_Error_def request_catch_new_Error)
       (simp add: request_catch_def conversion_TypeError_def)
next
  case (Inr m)
  then show ?thesis
    by (simp add: throw_new_Error_def request_catch_new_Error)
qed

lemma throw_new_Error_truthy:
  "truthy v \<Longrightarrow>
     throw_new_Error v = (case ToString v of Inr m \<Rightarrow> JsError ''Error'' m Undef | Inl e \<Rightarrow> e)"
  by (cases v) (auto simp: throw_new_Error_def new_Error_def split: sum.splits)

lemma request_catch_property_TypeError:
  "request_catch baseURL (property_TypeError v k) = Rejected (property_TypeError v k)"
  by (simp add: request_catch_def property_TypeError_def)

lemma request_catch_rejects: "\<exists>e. request_catch baseURL err = Rejected e"
  by (simp add: request_catch_def)

lemma truthy_imp_not_nullish: "truthy (get_prop v k) \<Longrightarrow> \<not> nullish v"
  by (auto simp: nullish_def)

text \<open>Splitting at a separator gives two parts exactly when it occurs once.\<close>

lemma length_str_split: "length (str_split c s) = Suc (count_list s c)"
  by (induction s) auto

lemma str_includes_single: "str_includes s [c] \<longleftrightarrow> c \<in> set s"
  by (induction s) auto

lemma dropWhile_all: "(\<forall>x \<in> set (dropWhile P s). P x) \<longleftrightarrow> (\<forall>x \<in> set s. P x)"
proof
  assume a: "\<forall>x \<in> set (dropWhile P s). P x"
  have "dropWhile P s = []"
  proof (rule ccontr)
    assume ne: "dropWhile P s \<noteq> []"
    then have "\<not> P (hd (dropWhile P s))" by (rule hd_dropWhile)
    moreover have "hd (dropWhile P s) \<in> set (dropWhile P s)" using ne by simp
    ultimately show False using a by blast
  qed
  then show "\<forall>x \<in> set s. P x" by (simp add: dropWhile_eq_Nil_conv)
next
  assume "\<forall>x \<in> set s. P x"
  then show "\<forall>x \<in> set (dropWhile P s). P x" by (blast dest: set_dropWhileD)
qed

text \<open>A string is blank, that is, trims to nothing, exactly when it is all white space.\<close>

lemma trim_empty: "trim s = [] \<longleftrightarrow> (\<forall>c \<in> set s. is_white_space c)"
  by (simp add: trim_def dropWhile_eq_Nil_conv dropWhile_all)

subsection \<open>Stage order\<close>

text \<open>
  C1. The seven stages are Discover, Define, Design, Develop, Test, Build, Deploy. The
  stage list of StageIndicator, the four lists of WorkspaceView and the list of
  StageGatePanel are exactly that sequence. \<open>STAGE_ORDER\<close> is not: it has no Build
  stage, puts Deploy sixth and ends with Maintain. The list of ProjectDashboard is not
  either: its fifth stage is \<open>testing\<close>.
\<close>

theorem STAGE_ORDER_differs:
  "map stage_id stages
     = [''discover'', ''define'', ''design'', ''develop'', ''test'', ''build'', ''deploy'']
   \<and> updateStageData_stages
     = [''discover'', ''define'', ''design'', ''develop'', ''test'', ''build'', ''deploy'']
   \<and> getProjectFiles_stages
     = [''discover'', ''define'', ''design'', ''develop'', ''test'', ''build'', ''deploy'']
   \<and> isStageAccessible_stages
     = [''discover'', ''define'', ''design'', ''develop'', ''test'', ''build'', ''deploy'']
   \<and> getPreviousStageArtifacts_stages
     = [''discover'', ''define'', ''design'', ''develop'', ''test'', ''build'', ''deploy'']
   \<and> StageGatePanel_stageOrder
     = [''discover'', ''define'', ''design'', ''develop'', ''test'', ''build'', ''deploy'']
   \<and> STAGE_ORDER
     = [''discover'', ''define'', ''design'', ''develop'', ''test'', ''deploy'', ''maintain'']
   \<and> STAGE_ORDER
     \<noteq> [''discover'', ''define'', ''design'', ''develop'', ''test'', ''build'', ''deploy'']
   \<and> getProgressPercent_stageOrder
     \<noteq> [''discover'', ''define'', ''design'', ''develop'', ''test'', ''build'', ''deploy'']"
  by (simp add: stages_def StageGatePanel_stageOrder_def getProgressPercent_stageOrder_def
      updateStageData_stages_def getProjectFiles_stages_def isStageAccessible_stages_def getPreviousStageArtifacts_stages_def STAGE_ORDER_def
      STAGES_DISCOVER_def STAGES_DEFINE_def STAGES_DESIGN_def STAGES_DEVELOP_def
      STAGES_TEST_def STAGES_DEPLOY_def STAGES_MAINTAIN_def)

subsection \<open>Error responses of the API client\<close>

text \<open>
  C2, as the code has it. A response with a non-OK status and a JSON content type is never
  resolved: \<open>request\<close> rejects. When the body parses to a value other than \<open>null\<close>,
  \<open>request\<close> throws \<open>new Error(v)\<close>, where \<open>v\<close> is the body's \<open>detail\<close> when that is
  truthy, otherwise its \<open>message\<close> when that is truthy, otherwise the string
  \<open>HTTP error! status: \<close> followed by the status. The error's message is the string
  conversion of \<open>v\<close>, and the conversion's own TypeError is thrown in its place when \<open>v\<close>
  cannot be converted. So a non-empty string \<open>detail\<close> is the message; with a falsy
  \<open>detail\<close> a non-empty string \<open>message\<close> is the message; with both falsy the message is
  the \<open>HTTP error!\<close> text.
\<close>

theorem request_error_message:
  assumes "\<not> resp_ok r"
    and "is_json_content_type (resp_content_type r)"
    and "fetch \<lparr>url = baseURL @ endpoint, config = request_config opts\<rparr> = Resolved r"
  shows "(\<exists>e. snd (request baseURL fetch endpoint opts) = Rejected e)
     \<and> (\<forall>d. resp_json r = Resolved d \<and> \<not> nullish d \<longrightarrow>
          snd (request baseURL fetch endpoint opts) =
            Rejected
              (case ToString
                      (if truthy (get_prop d ''detail'') then get_prop d ''detail''
                       else if truthy (get_prop d ''message'') then get_prop d ''message''
                       else Str (''HTTP error! status: '' @ digits (resp_status r))) of
                 Inr m \<Rightarrow> JsError ''Error'' m Undef
               | Inl e \<Rightarrow> e))
     \<and> (\<forall>d s. resp_json r = Resolved d \<and> get_prop d ''detail'' = Str s \<and> s \<noteq> [] \<longrightarrow>
          snd (request baseURL fetch endpoint opts) = Rejected (JsError ''Error'' s Undef))
     \<and> (\<forall>d s. resp_json r = Resolved d \<and> \<not> truthy (get_prop d ''detail'')
              \<and> get_prop d ''message'' = Str s \<and> s \<noteq> [] \<longrightarrow>
          snd (request baseURL fetch endpoint opts) = Rejected (JsError ''Error'' s Undef))
     \<and> (\<forall>d. resp_json r = Resolved d \<and> \<not> nullish d \<and> \<not> truthy (get_prop d ''detail'')
              \<and> \<not> truthy (get_prop d ''message'') \<longrightarrow>
          snd (request baseURL fetch endpoint opts) =
            Rejected (JsError ''Error'' (''HTTP error! status: '' @ digits (resp_status r)) Undef))"
proof -
  have settle: "snd (request baseURL fetch endpoint opts) = request_settle baseURL (Resolved r)"
    using assms(3) by (simp add: request_def Let_def)
  have rejects: "\<exists>e. request_settle baseURL (Resolved r) = Rejected e"
  proof (cases "resp_json r")
    case (Rejected e)
    then show ?thesis
      using assms(2) request_catch_rejects [of baseURL e]
      by (simp add: request_settle_def request_try_def)
  next
    case (Resolved d)
    show ?thesis
    proof (cases "nullish d")
      case True
      then show ?thesis
        using Resolved assms(1,2)
        by (simp add: request_settle_def request_try_def request_catch_property_TypeError)
    next
      case False
      then show ?thesis
        using Resolved assms(1,2)
        by (simp add: request_settle_def request_try_def request_catch_throw_new_Error)
    qed
  qed
  have thrown: "request_settle baseURL (Resolved r) =
      Rejected
        (case ToString
                (if truthy (get_prop d ''detail'') then get_prop d ''detail''
                 else if truthy (get_prop d ''message'') then get_prop d ''message''
                 else Str (''HTTP error! status: '' @ digits (resp_status r))) of
           Inr m \<Rightarrow> JsError ''Error'' m Undef
         | Inl e \<Rightarrow> e)"
    if d: "resp_json r = Resolved d" "\<not> nullish d" for d
  proof -
    let ?v = "js_or (get_prop d ''detail'')
                (js_or (get_prop d ''message'')
                   (Str (''HTTP error! status: '' @ digits (resp_status r))))"
    have "request_settle baseURL (Resolved r) = Rejected (throw_new_Error ?v)"
      using d assms(1,2)
      by (simp add: request_settle_def request_try_def request_catch_throw_new_Error)
    moreover have "truthy ?v"
      by (simp add: js_or_def)
    ultimately show ?thesis
      by (simp add: throw_new_Error_truthy) (simp add: js_or_def)
  qed
  have detail: "request_settle baseURL (Resolved r) = Rejected (JsError ''Error'' s Undef)"
    if "resp_json r = Resolved d" "get_prop d ''detail'' = Str s" "s \<noteq> []" for d s
  proof -
    have "truthy (get_prop d ''detail'')" using that by simp
    then have "\<not> nullish d" by (rule truthy_imp_not_nullish)
    then show ?thesis
      using thrown [of d] that by simp
  qed
  have message: "request_settle baseURL (Resolved r) = Rejected (JsError ''Error'' s Undef)"
    if "resp_json r = Resolved d" "\<not> truthy (get_prop d ''detail'')"
       "get_prop d ''message'' = Str s" "s \<noteq> []" for d s
  proof -
    have "truthy (get_prop d ''message'')" using that by simp
    then have "\<not> nullish d" by (rule truthy_imp_not_nullish)
    then show ?thesis
      using thrown [of d] that by simp
  qed
  have default: "request_settle baseURL (Resolved r) =
      Rejected (JsError ''Error'' (''HTTP error! status: '' @ digits (resp_status r)) Undef)"
    if "resp_json r = Resolved d" "\<not> nullish d" "\<not> truthy (get_prop d ''detail'')"
       "\<not> truthy (get_prop d ''message'')" for d
    using thrown [of d] that by simp
  show ?thesis
    unfolding settle
    using rejects thrown detail message default by blast
qed

theorem request_error_message_witness:
  "snd (request ''http://localhost:8000''
      (\<lambda>c. Resolved \<lparr>resp_ok = False, resp_status = 404,
          resp_content_type = Some ''application/json'', resp_text = Resolved [],
          resp_json = Resolved (Obj [(''detail'', Str ''Project not found'')])\<rparr>)
      ''/api/projects/42'' no_options)
   = Rejected (JsError ''Error'' ''Project not found'' Undef)"
  using request_error_message
    [of "\<lparr>resp_ok = False, resp_status = 404,
          resp_content_type = Some ''application/json'', resp_text = Resolved [],
          resp_json = Resolved (Obj [(''detail'', Str ''Project not found'')])\<rparr>"
        "\<lambda>c. Resolved \<lparr>resp_ok = False, resp_status = 404,
          resp_content_type = Some ''application/json'', resp_text = Resolved [],
          resp_json = Resolved (Obj [(''detail'', Str ''Project not found'')])\<rparr>"
        "''http://localhost:8000''" "''/api/projects/42''" no_options]
  by (simp add: is_json_content_type_def nullish_def)

text \<open>
  The claim as stated fails on two bodies of a 500 response with a JSON content type. With
  the body \<open>{"detail": "", "message": "boom"}\<close> the \<open>detail\<close> field is present, yet the
  error carries \<open>boom\<close>. With the body \<open>null\<close> there is neither field, yet the error is
  the TypeError of reading \<open>detail\<close> of \<open>null\<close>, not the \<open>HTTP error!\<close> message.
\<close>

theorem request_error_message_counterexample:
  "get_prop (Obj [(''detail'', Str []), (''message'', Str ''boom'')]) ''detail'' = Str []
   \<and> request_settle ''http://localhost:8000''
       (Resolved \<lparr>resp_ok = False, resp_status = 500,
          resp_content_type = Some ''application/json'', resp_text = Resolved [],
          resp_json = Resolved (Obj [(''detail'', Str []), (''message'', Str ''boom'')])\<rparr>)
     = Rejected (JsError ''Error'' ''boom'' Undef)
   \<and> request_settle ''http://localhost:8000''
       (Resolved \<lparr>resp_ok = False, resp_status = 500,
          resp_content_type = Some ''application/json'', resp_text = Resolved [],
          resp_json = Resolved Null\<rparr>)
     = Rejected (property_TypeError Null ''detail'')
   \<and> err_name (property_TypeError Null ''detail'') = ''TypeError''
   \<and> property_TypeError Null ''detail'' \<noteq> JsError ''Error'' ''HTTP error! status: 500'' Undef"
  by (simp add: request_settle_def request_try_def request_catch_def is_json_content_type_def
      js_or_def nullish_def throw_new_Error_def new_Error_def property_TypeError_def)

text \<open>
  Bodies whose \<open>detail\<close> is not a string, on the same response: the number \<open>1e21\<close>
  gives the message \<open>1e+21\<close>, a list of validation errors gives
  \<open>[object Object],[object Object]\<close>, and an object with a \<open>toString\<close> property makes
  the constructor throw the TypeError of the conversion.
\<close>

lemma request_error_message_examples:
  "request_settle ''http://localhost:8000''
       (Resolved \<lparr>resp_ok = False, resp_status = 500,
          resp_content_type = Some ''application/json'', resp_text = Resolved [],
          resp_json = Resolved (Obj [(''detail'', Num (Number ''1e+21''))])\<rparr>)
     = Rejected (JsError ''Error'' ''1e+21'' Undef)
   \<and> request_settle ''http://localhost:8000''
       (Resolved \<lparr>resp_ok = False, resp_status = 422,
          resp_content_type = Some ''application/json'', resp_text = Resolved [],
          resp_json = Resolved (Obj [(''detail'',
            Arr [Obj [(''msg'', Str ''field required'')], Obj [(''msg'', Str ''too long'')]])])\<rparr>)
     = Rejected (JsError ''Error'' ''[object Object],[object Object]'' Undef)
   \<and> request_settle ''http://localhost:8000''
       (Resolved \<lparr>resp_ok = False, resp_status = 500,
          resp_content_type = Some ''application/json'', resp_text = Resolved [],
          resp_json = Resolved (Obj [(''detail'', Obj [(''toString'', Num (Number ''1''))])])\<rparr>)
     = Rejected conversion_TypeError"
  by (simp add: request_settle_def request_try_def request_catch_def is_json_content_type_def
      js_or_def nullish_def throw_new_Error_def new_Error_def conversion_TypeError_def)

text \<open>
  C8, as the code has it. When the content type of a response is not JSON, \<open>request\<close>
  reads the body as text before it looks at the status. When the text is read it resolves
  with \<open>{ message: <body text>, status: <HTTP status> }\<close>, whatever the status: an error
  response that is not JSON is then returned to the caller as a value, not thrown. When
  reading the text fails, \<open>request\<close> rejects: with the error of the read, or with the
  \<open>Cannot connect to server\<close> error when that is the TypeError \<open>Failed to fetch\<close>.
\<close>

theorem request_non_json_settles:
  assumes "\<not> is_json_content_type (resp_content_type r)"
    and "fetch \<lparr>url = baseURL @ endpoint, config = request_config opts\<rparr> = Resolved r"
  shows "(\<forall>text. resp_text r = Resolved text \<longrightarrow>
            snd (request baseURL fetch endpoint opts)
              = Resolved (Obj [(''message'', Str text),
                               (''status'', Num (Number (digits (resp_status r))))]))
     \<and> (\<forall>e. resp_text r = Rejected e \<longrightarrow>
            snd (request baseURL fetch endpoint opts)
              = Rejected
                  (if err_name e = ''TypeError'' \<and> err_message e = ''Failed to fetch''
                   then JsError ''Error''
                          (''Cannot connect to server. Is the backend running on ''
                             @ baseURL @ ''?'') Undef
                   else e))"
  using assms
  by (simp add: request_def request_settle_def request_try_def request_catch_def new_Error_def
      Let_def)

theorem request_non_json_settles_witness:
  "\<not> resp_ok \<lparr>resp_ok = False, resp_status = 500,
          resp_content_type = Some ''text/html'', resp_text = Resolved ''Internal Server Error'',
          resp_json = Rejected (JsError ''SyntaxError'' ''Unexpected token'' Undef)\<rparr>
   \<and> snd (request ''http://localhost:8000''
      (\<lambda>c. Resolved \<lparr>resp_ok = False, resp_status = 500,
          resp_content_type = Some ''text/html'', resp_text = Resolved ''Internal Server Error'',
          resp_json = Rejected (JsError ''SyntaxError'' ''Unexpected token'' Undef)\<rparr>)
      ''/api/health'' no_options)
   = Resolved (Obj [(''message'', Str ''Internal Server Error''),
                    (''status'', Num (Number ''500''))])"
  using request_non_json_settles
    [of "\<lparr>resp_ok = False, resp_status = 500,
          resp_content_type = Some ''text/html'', resp_text = Resolved ''Internal Server Error'',
          resp_json = Rejected (JsError ''SyntaxError'' ''Unexpected token'' Undef)\<rparr>"
        "\<lambda>c. Resolved \<lparr>resp_ok = False, resp_status = 500,
          resp_content_type = Some ''text/html'', resp_text = Resolved ''Internal Server Error'',
          resp_json = Rejected (JsError ''SyntaxError'' ''Unexpected token'' Undef)\<rparr>"
        "''http://localhost:8000''" "''/api/health''" no_options]
  by (simp add: is_json_content_type_def digits.simps digit_char_def)

text \<open>
  The claim as stated fails on a 502 response of type \<open>text/html\<close> whose body cannot be
  read: \<open>response.text()\<close> rejects inside the \<open>try\<close> block, the \<open>catch\<close> block throws the
  error again, and the caller gets an exception, not a value.
\<close>

theorem request_non_json_settles_counterexample:
  "is_json_content_type (Some ''text/html'') = False
   \<and> request_settle ''http://localhost:8000''
       (Resolved \<lparr>resp_ok = False, resp_status = 502,
          resp_content_type = Some ''text/html'',
          resp_text = Rejected (JsError ''TypeError'' ''network error'' Undef),
          resp_json = Rejected (JsError ''TypeError'' ''network error'' Undef)\<rparr>)
     = Rejected (JsError ''TypeError'' ''network error'' Undef)"
  by (simp add: request_settle_def request_try_def request_catch_def is_json_content_type_def)

subsection \<open>Chat endpoints\<close>

text \<open>
  C5. For every project id, stage and message, \<open>sendChatMessage\<close> issues a POST to
  \<open>/api/chat/send\<close>, \<open>getChatHistory\<close> a GET to \<open>/api/chat/{projectId}/{stage}/history\<close>
  with the query \<open>limit\<close>, which is 50 when no limit is given, and \<open>clearChatHistory\<close> a
  DELETE to \<open>/api/chat/{projectId}/{stage}/history\<close>, each below the base URL.
\<close>

theorem chat_endpoints:
  "url (fst (sendChatMessage baseURL fetch projectId stage message userId))
       = baseURL @ ''/api/chat/send''
   \<and> http_method (fst (sendChatMessage baseURL fetch projectId stage message userId)) = ''POST''
   \<and> url (fst (getChatHistory baseURL fetch projectId stage (Some n)))
       = baseURL @ ''/api/chat/'' @ projectId @ ''/'' @ stage @ ''/history'' @ ''?limit='' @ digits n
   \<and> url (fst (getChatHistory baseURL fetch projectId stage None))
       = baseURL @ ''/api/chat/'' @ projectId @ ''/'' @ stage @ ''/history'' @ ''?limit=50''
   \<and> http_method (fst (getChatHistory baseURL fetch projectId stage limit)) = ''GET''
   \<and> url (fst (clearChatHistory baseURL fetch projectId stage))
       = baseURL @ ''/api/chat/'' @ projectId @ ''/'' @ stage @ ''/history''
   \<and> http_method (fst (clearChatHistory baseURL fetch projectId stage)) = ''DELETE''"
  by (simp add: sendChatMessage_def getChatHistory_def clearChatHistory_def request_def Let_def
      http_method_def request_config_def no_options_def digits_50)

subsection \<open>Workspace state\<close>

text \<open>
  C3, as the code has it. When \<open>handleGenerationComplete\<close> receives a result with a
  truthy \<open>problem_statement\<close> and a truthy \<open>stakeholder_analysis\<close>, whose \<open>stage\<close> is not
  \<open>develop\<close> and which carries no truthy \<open>tickets\<close>, the discover entry of the stage data
  becomes passed with item count 2, the define entry becomes active, the current stage
  becomes define, and the two artifacts built from the result become the artifacts of the
  discover stage.
\<close>

theorem handleGenerationComplete_discover:
  assumes "truthy (get_prop result ''problem_statement'')"
    and "truthy (get_prop result ''stakeholder_analysis'')"
    and "get_prop result ''stage'' \<noteq> Str ''develop''"
    and "\<not> truthy (get_prop result ''tickets'')"
  shows "\<exists>st'. handleGenerationComplete now_ms now result st = Inr st'
     \<and> stageData st' ''discover'' = Some \<lparr>status = ''passed'', itemCount = Some 2\<rparr>
     \<and> stageData st' ''define'' = Some \<lparr>status = ''active'', itemCount = Some 0\<rparr>
     \<and> getStageStatus (stageData st') ''discover'' = ''passed''
     \<and> getStageItemCount (stageData st') ''discover'' = 2
     \<and> getStageStatus (stageData st') ''define'' = ''active''
     \<and> currentStage st' = ''define''
     \<and> artifacts st' ''discover'' = Some
          [\<lparr>art_artifact_id = get_prop (get_prop result ''problem_statement'') ''artifact_id'',
            art_name = Str ''Problem Statement'',
            art_content = get_prop (get_prop result ''problem_statement'') ''content'',
            art_created_at = get_prop (get_prop result ''problem_statement'') ''created_at'',
            art_created_by = ''AI Business Analyst'',
            art_stage = ''discover''\<rparr>,
           \<lparr>art_artifact_id = get_prop (get_prop result ''stakeholder_analysis'') ''artifact_id'',
            art_name = Str ''Stakeholder Analysis'',
            art_content = get_prop (get_prop result ''stakeholder_analysis'') ''content'',
            art_created_at = get_prop (get_prop result ''stakeholder_analysis'') ''created_at'',
            art_created_by = ''AI Business Analyst'',
            art_stage = ''discover''\<rparr>]"
proof -
  have "\<not> nullish result"
    using assms(1) by (rule truthy_imp_not_nullish)
  then show ?thesis
    using assms
    by (simp add: handleGenerationComplete_def Let_def getStageStatus_def getStageItemCount_def)
qed

theorem handleGenerationComplete_discover_witness:
  "\<exists>st'. handleGenerationComplete 0 ''now''
       (Obj [(''problem_statement'', Obj [(''artifact_id'', Str ''a1''), (''content'', Str ''P'')]),
             (''stakeholder_analysis'', Obj [(''artifact_id'', Str ''a2''), (''content'', Str ''S'')])])
       initial_workspace = Inr st'
     \<and> getStageStatus (stageData st') ''discover'' = ''passed''
     \<and> getStageItemCount (stageData st') ''discover'' = 2
     \<and> getStageStatus (stageData st') ''define'' = ''active''
     \<and> currentStage st' = ''define''"
  using handleGenerationComplete_discover
    [of "Obj [(''problem_statement'', Obj [(''artifact_id'', Str ''a1''), (''content'', Str ''P'')]),
              (''stakeholder_analysis'', Obj [(''artifact_id'', Str ''a2''), (''content'', Str ''S'')])]"
        0 "''now''" initial_workspace]
  by auto

text \<open>
  The claim as stated fails on a result that has both documents and also tickets: the
  develop branch is tried first and returns, so from the initial state the current stage
  stays discover, its entry stays active and its artifact list stays empty.
\<close>

theorem handleGenerationComplete_discover_counterexample:
  "truthy (get_prop (Obj
        [(''problem_statement'', Obj [(''artifact_id'', Str ''a1''), (''content'', Str ''P'')]),
         (''stakeholder_analysis'', Obj [(''artifact_id'', Str ''a2''), (''content'', Str ''S'')]),
         (''tickets'', Arr [Obj [(''key'', Str ''T-1'')]])]) ''problem_statement'')
   \<and> truthy (get_prop (Obj
        [(''problem_statement'', Obj [(''artifact_id'', Str ''a1''), (''content'', Str ''P'')]),
         (''stakeholder_analysis'', Obj [(''artifact_id'', Str ''a2''), (''content'', Str ''S'')]),
         (''tickets'', Arr [Obj [(''key'', Str ''T-1'')]])]) ''stakeholder_analysis'')
   \<and> \<not> isl (handleGenerationComplete 0 ''now'' (Obj
        [(''problem_statement'', Obj [(''artifact_id'', Str ''a1''), (''content'', Str ''P'')]),
         (''stakeholder_analysis'', Obj [(''artifact_id'', Str ''a2''), (''content'', Str ''S'')]),
         (''tickets'', Arr [Obj [(''key'', Str ''T-1'')]])]) initial_workspace)
   \<and> currentStage (projr (handleGenerationComplete 0 ''now'' (Obj
        [(''problem_statement'', Obj [(''artifact_id'', Str ''a1''), (''content'', Str ''P'')]),
         (''stakeholder_analysis'', Obj [(''artifact_id'', Str ''a2''), (''content'', Str ''S'')]),
         (''tickets'', Arr [Obj [(''key'', Str ''T-1'')]])]) initial_workspace)) = ''discover''
   \<and> getStageStatus (stageData (projr (handleGenerationComplete 0 ''now'' (Obj
        [(''problem_statement'', Obj [(''artifact_id'', Str ''a1''), (''content'', Str ''P'')]),
         (''stakeholder_analysis'', Obj [(''artifact_id'', Str ''a2''), (''content'', Str ''S'')]),
         (''tickets'', Arr [Obj [(''key'', Str ''T-1'')]])]) initial_workspace))) ''discover''
       = ''active''
   \<and> artifacts (projr (handleGenerationComplete 0 ''now'' (Obj
        [(''problem_statement'', Obj [(''artifact_id'', Str ''a1''), (''content'', Str ''P'')]),
         (''stakeholder_analysis'', Obj [(''artifact_id'', Str ''a2''), (''content'', Str ''S'')]),
         (''tickets'', Arr [Obj [(''key'', Str ''T-1'')]])]) initial_workspace)) ''discover''
       = Some []"
  by (simp add: handleGenerationComplete_def nullish_def initial_workspace_def getStageStatus_def)

text \<open>
  C7, as the code has it. \<open>handleMoveToNextStage(nextStage)\<close> leaves the stage data of
  every stage other than the current one and \<open>nextStage\<close> unchanged, and leaves the item
  count of every stage unchanged, the two rewritten ones included. The entry of
  \<open>nextStage\<close> becomes active; the entry of the old current stage becomes passed when the
  two stages differ.
\<close>

theorem handleMoveToNextStage_frame:
  "(\<forall>s. s \<noteq> currentStage st \<and> s \<noteq> nextStage \<longrightarrow>
        stageData (handleMoveToNextStage nextStage st) s = stageData st s)
   \<and> (\<forall>s. opt_itemCount (stageData (handleMoveToNextStage nextStage st)) s
            = opt_itemCount (stageData st) s)
   \<and> (\<forall>s. getStageItemCount (stageData (handleMoveToNextStage nextStage st)) s
            = getStageItemCount (stageData st) s)
   \<and> map_option status (stageData (handleMoveToNextStage nextStage st) nextStage)
       = Some ''active''
   \<and> (currentStage st \<noteq> nextStage \<longrightarrow>
        map_option status (stageData (handleMoveToNextStage nextStage st) (currentStage st))
          = Some ''passed'')"
  by (auto simp: handleMoveToNextStage_def Let_def spread_status_def getStageItemCount_def
      opt_itemCount_def split: option.splits)

theorem handleMoveToNextStage_frame_witness:
  "stageData (handleMoveToNextStage ''define'' initial_workspace) ''design''
      = stageData initial_workspace ''design''
   \<and> getStageItemCount (stageData (handleMoveToNextStage ''define'' initial_workspace)) ''discover''
      = getStageItemCount (stageData initial_workspace) ''discover''
   \<and> map_option status (stageData (handleMoveToNextStage ''define'' initial_workspace) ''define'')
      = Some ''active''
   \<and> map_option status (stageData (handleMoveToNextStage ''define'' initial_workspace) ''discover'')
      = Some ''passed''"
  using handleMoveToNextStage_frame [of initial_workspace "''define''"]
  by (simp add: initial_workspace_def)

text \<open>
  The claim as stated fails when \<open>nextStage\<close> is the current stage, as when the gate of the
  discover stage is passed again while the project is already at define: the entry is
  rewritten to passed and then to active, so the old current stage is not passed.
\<close>

theorem handleMoveToNextStage_counterexample:
  "currentStage (initial_workspace
       \<lparr>currentStage := ''define'', viewingStage := ''discover'', activeTab := ''stagegate''\<rparr>)
     = ''define''
   \<and> map_option status (stageData (handleMoveToNextStage ''define'' (initial_workspace
       \<lparr>currentStage := ''define'', viewingStage := ''discover'', activeTab := ''stagegate''\<rparr>))
       ''define'') = Some ''active''
   \<and> getStageStatus (stageData (handleMoveToNextStage ''define'' (initial_workspace
       \<lparr>currentStage := ''define'', viewingStage := ''discover'', activeTab := ''stagegate''\<rparr>)))
       ''define'' \<noteq> ''passed''"
  by (simp add: handleMoveToNextStage_def Let_def spread_status_def initial_workspace_def
      getStageStatus_def)

subsection \<open>GitHub gate of the develop stage\<close>

text \<open>
  C4. While the GitHub configuration is not configured (\<open>is_configured\<close> false or
  missing), DevelopStagePanel renders the connect prompt instead of the ticket list and
  nothing the user can click on it, nor its mount effect, calls \<open>api.implementTicket\<close>,
  also over any sequence of clicks on panels that stay unconfigured. Viewing the develop
  stage then opens the GitHub configuration modal, whether the API returned that
  configuration, failed, or was not asked for lack of a project id.
\<close>

theorem develop_requires_github:
  assumes "\<not> truthy (opt_prop cfg ''is_configured'')"
  shows "(dp_githubConfig p = cfg \<longrightarrow>
            render_tickets_section p = ConnectPrompt
            \<and> (\<forall>c. filter is_implement_call (panel_click_calls p c) = [])
            \<and> filter is_implement_call (panel_mount_calls p) = [])
     \<and> ((\<forall>pc \<in> set pcs. dp_githubConfig (fst pc) = cfg) \<longrightarrow>
            filter is_implement_call
              (concat (map (\<lambda>pc. panel_click_calls (fst pc) (snd pc)) pcs)) = [])
     \<and> (viewingStage st = ''develop''
          \<and> (projectId = [] \<or> api (GetGitHubConfig projectId) = Resolved cfg
               \<or> api (GetGitHubConfig projectId) = Rejected err) \<longrightarrow>
            showGitHubModal (viewingStage_effect projectId api st))"
proof -
  have unconfigured: "\<not> isConfigured cfg"
    using assms by (simp add: isConfigured_def js_or_def)
  have click: "panel_click_calls q c = []" if "dp_githubConfig q = cfg" for q c
    using that unconfigured
    by (simp add: panel_click_calls_def render_tickets_section_def split: panel_click.splits)
  have panel: "dp_githubConfig p = cfg \<longrightarrow>
            render_tickets_section p = ConnectPrompt
            \<and> (\<forall>c. filter is_implement_call (panel_click_calls p c) = [])
            \<and> filter is_implement_call (panel_mount_calls p) = []"
    using unconfigured click [of p]
    by (simp add: render_tickets_section_def panel_mount_calls_def)
  have trace: "(\<forall>pc \<in> set pcs. dp_githubConfig (fst pc) = cfg) \<longrightarrow>
            filter is_implement_call
              (concat (map (\<lambda>pc. panel_click_calls (fst pc) (snd pc)) pcs)) = []"
    using click by (induction pcs) auto
  have modal: "viewingStage st = ''develop''
          \<and> (projectId = [] \<or> api (GetGitHubConfig projectId) = Resolved cfg
               \<or> api (GetGitHubConfig projectId) = Rejected err) \<longrightarrow>
            showGitHubModal (viewingStage_effect projectId api st)"
    using assms
    by (auto simp: viewingStage_effect_def checkGitHubConfig_def opt_prop_def nullish_def)
  show ?thesis
    using panel trace modal by blast
qed

text \<open>
  An unconfigured panel that holds a ticket still to do: the prompt is shown, a click on
  the ticket's implement button starts no call, and the effect opens the modal.
\<close>

theorem develop_requires_github_witness:
  "render_tickets_section
      \<lparr>dp_projectId = ''p1'', dp_githubConfig = Obj [(''is_configured'', Bool False)],
       dp_tickets = [Obj [(''key'', Str ''T-1''), (''status'', Str ''todo'')]],
       dp_isLoadingTickets = False, dp_isImplementing = False, dp_implementingKey = Null\<rparr>
     = ConnectPrompt
   \<and> filter is_implement_call (panel_click_calls
      \<lparr>dp_projectId = ''p1'', dp_githubConfig = Obj [(''is_configured'', Bool False)],
       dp_tickets = [Obj [(''key'', Str ''T-1''), (''status'', Str ''todo'')]],
       dp_isLoadingTickets = False, dp_isImplementing = False, dp_implementingKey = Null\<rparr>
      (ClickImplement (Obj [(''key'', Str ''T-1''), (''status'', Str ''todo'')]))) = []
   \<and> showGitHubModal (viewingStage_effect ''p1''
        (\<lambda>c. Resolved (Obj [(''is_configured'', Bool False)]))
        (initial_workspace\<lparr>viewingStage := ''develop''\<rparr>))"
  using develop_requires_github
    [of "Obj [(''is_configured'', Bool False)]"
        "\<lparr>dp_projectId = ''p1'', dp_githubConfig = Obj [(''is_configured'', Bool False)],
          dp_tickets = [Obj [(''key'', Str ''T-1''), (''status'', Str ''todo'')]],
          dp_isLoadingTickets = False, dp_isImplementing = False, dp_implementingKey = Null\<rparr>"
        "[]" "initial_workspace\<lparr>viewingStage := ''develop''\<rparr>" "''p1''"
        "\<lambda>c. Resolved (Obj [(''is_configured'', Bool False)])"]
  by (simp add: opt_prop_def nullish_def)

subsection \<open>Failed generation\<close>

text \<open>
  C6. When \<open>handleGenerate\<close> runs (the idea is not blank and no generation is under way)
  and \<open>api.generateDiscover\<close> rejects with an error, the error state becomes the error's
  message, or \<open>Generation failed. Please try again.\<close> when the message is empty,
  \<open>onGenerationComplete\<close> is not called, so the stage is not advanced, and
  \<open>isGenerating\<close> ends false.
\<close>

theorem handleGenerate_rejected:
  assumes "trim (userIdea p) \<noteq> []"
    and "\<not> isGenerating p"
    and "api (GenerateDiscover projectId (userIdea p) ''demo_user'') = Rejected err"
  shows "gen_error (run_panel (handleGenerate projectId api onGenerationComplete p))
           = Some (if err_message err = [] then ''Generation failed. Please try again.''
                   else err_message err)
       \<and> run_completed (handleGenerate projectId api onGenerationComplete p) = []
       \<and> isGenerating (run_panel (handleGenerate projectId api onGenerationComplete p)) = False
       \<and> run_calls (handleGenerate projectId api onGenerationComplete p)
           = [GenerateDiscover projectId (userIdea p) ''demo_user'']"
  using assms by (simp add: handleGenerate_def Let_def handleGenerate_catch_def)

theorem handleGenerate_rejected_witness:
  "gen_error (run_panel (handleGenerate ''p1''
       (\<lambda>c. Rejected (JsError ''Error'' ''HTTP error! status: 500'' Undef))
       (Some (\<lambda>r. None))
       \<lparr>userIdea = code_units ''a shop'', isGenerating = False, generationStep = 0, gen_error = None\<rparr>))
     = Some ''HTTP error! status: 500''
   \<and> run_completed (handleGenerate ''p1''
       (\<lambda>c. Rejected (JsError ''Error'' ''HTTP error! status: 500'' Undef))
       (Some (\<lambda>r. None))
       \<lparr>userIdea = code_units ''a shop'', isGenerating = False, generationStep = 0, gen_error = None\<rparr>)
     = []
   \<and> \<not> isGenerating (run_panel (handleGenerate ''p1''
       (\<lambda>c. Rejected (JsError ''Error'' ''HTTP error! status: 500'' Undef))
       (Some (\<lambda>r. None))
       \<lparr>userIdea = code_units ''a shop'', isGenerating = False, generationStep = 0, gen_error = None\<rparr>))"
  using handleGenerate_rejected
    [of "\<lparr>userIdea = code_units ''a shop'', isGenerating = False, generationStep = 0, gen_error = None\<rparr>"
        "\<lambda>c. Rejected (JsError ''Error'' ''HTTP error! status: 500'' Undef)"
        "''p1''" "JsError ''Error'' ''HTTP error! status: 500'' Undef" "Some (\<lambda>r. None)"]
  by (simp add: trim_def is_white_space_def code_units_def)

subsection \<open>Validation of the GitHub form\<close>

text \<open>
  C9. \<open>handleSubmit\<close> calls \<open>api.saveGitHubConfig\<close> exactly when the token is not blank,
  the repository is not blank, and the repository contains a \<open>/\<close> that splits it into
  exactly two parts; the call then carries the trimmed token and repository. For every
  other input it makes no API call and sets a non-empty inline error message. Blank means
  that trimming leaves nothing, that is, every code unit is white space.
\<close>

theorem handleSubmit_validation:
  "(sub_calls (handleSubmit projectId api onSuccess m) \<noteq> [] \<longleftrightarrow>
      trim (token m) \<noteq> [] \<and> trim (repo m) \<noteq> []
      \<and> slash \<in> set (repo m) \<and> length (str_split slash (repo m)) = 2)
   \<and> (sub_calls (handleSubmit projectId api onSuccess m) \<noteq> [] \<longrightarrow>
        sub_calls (handleSubmit projectId api onSuccess m) =
          [SaveGitHubConfig projectId (trim (token m)) (trim (repo m))])
   \<and> (\<not> (trim (token m) \<noteq> [] \<and> trim (repo m) \<noteq> []
          \<and> slash \<in> set (repo m) \<and> length (str_split slash (repo m)) = 2) \<longrightarrow>
        sub_calls (handleSubmit projectId api onSuccess m) = []
        \<and> (\<exists>msg. msg \<noteq> []
              \<and> modal_error (sub_modal (handleSubmit projectId api onSuccess m)) = Str msg)
        \<and> \<not> isLoading (sub_modal (handleSubmit projectId api onSuccess m)))
   \<and> (trim (token m) = [] \<longleftrightarrow> (\<forall>c \<in> set (token m). is_white_space c))
   \<and> (trim (repo m) = [] \<longleftrightarrow> (\<forall>c \<in> set (repo m). is_white_space c))"
proof -
  let ?valid = "trim (token m) \<noteq> [] \<and> trim (repo m) \<noteq> []
      \<and> slash \<in> set (repo m) \<and> length (str_split slash (repo m)) = 2"
  have called: "sub_calls (handleSubmit projectId api onSuccess m) =
          [SaveGitHubConfig projectId (trim (token m)) (trim (repo m))]" if ?valid
    using that
    by (simp add: handleSubmit_def Let_def str_includes_single
        split: promise.splits option.splits)
  have refused: "sub_calls (handleSubmit projectId api onSuccess m) = []
        \<and> (\<exists>msg. msg \<noteq> []
              \<and> modal_error (sub_modal (handleSubmit projectId api onSuccess m)) = Str msg)
        \<and> \<not> isLoading (sub_modal (handleSubmit projectId api onSuccess m))" if "\<not> ?valid"
    using that
    by (auto simp: handleSubmit_def Let_def str_includes_single handleSubmit_catch_def
        new_Error_def opt_prop_def nullish_def js_or_def)
  have calls: "sub_calls (handleSubmit projectId api onSuccess m) \<noteq> [] \<longleftrightarrow> ?valid"
    using called refused by fastforce
  show ?thesis
    using calls called refused trim_empty [of "token m"] trim_empty [of "repo m"] by blast
qed

text \<open>
  A valid form, which calls the API with the trimmed token; a repository with two
  slashes, refused; and a token that is a single em space (U+2003), refused as blank.
\<close>

theorem handleSubmit_validation_witness:
  "sub_calls (handleSubmit ''p1'' (\<lambda>c. Resolved (Obj [(''status'', Str ''success'')]))
      (\<lambda>d. None)
      \<lparr>token = code_units '' ghp_abc '', repo = code_units ''owner/repo'', isLoading = False,
       modal_error = Null\<rparr>)
     = [SaveGitHubConfig ''p1'' (code_units ''ghp_abc'') (code_units ''owner/repo'')]
   \<and> sub_calls (handleSubmit ''p1'' (\<lambda>c. Resolved (Obj [(''status'', Str ''success'')]))
      (\<lambda>d. None)
      \<lparr>token = code_units ''ghp_abc'', repo = code_units ''owner/repo/x'', isLoading = False,
       modal_error = Null\<rparr>)
     = []
   \<and> sub_calls (handleSubmit ''p1'' (\<lambda>c. Resolved (Obj [(''status'', Str ''success'')]))
      (\<lambda>d. None)
      \<lparr>token = [8195], repo = code_units ''owner/repo'', isLoading = False,
       modal_error = Null\<rparr>)
     = []
   \<and> modal_error (sub_modal (handleSubmit ''p1''
        (\<lambda>c. Resolved (Obj [(''status'', Str ''success'')])) (\<lambda>d. None)
        \<lparr>token = [8195], repo = code_units ''owner/repo'', isLoading = False,
         modal_error = Null\<rparr>))
     = Str ''GitHub token is required''"
  using handleSubmit_validation
    [of "''p1''" "\<lambda>c. Resolved (Obj [(''status'', Str ''success'')])" "\<lambda>d. None"
        "\<lparr>token = code_units '' ghp_abc '', repo = code_units ''owner/repo'', isLoading = False,
          modal_error = Null\<rparr>"]
    handleSubmit_validation
    [of "''p1''" "\<lambda>c. Resolved (Obj [(''status'', Str ''success'')])" "\<lambda>d. None"
        "\<lparr>token = code_units ''ghp_abc'', repo = code_units ''owner/repo/x'', isLoading = False,
          modal_error = Null\<rparr>"]
    handleSubmit_validation
    [of "''p1''" "\<lambda>c. Resolved (Obj [(''status'', Str ''success'')])" "\<lambda>d. None"
        "\<lparr>token = [8195], repo = code_units ''owner/repo'', isLoading = False,
          modal_error = Null\<rparr>"]
  by (simp add: trim_def is_white_space_def code_units_def slash_def handleSubmit_def
      handleSubmit_catch_def new_Error_def opt_prop_def nullish_def js_or_def)

subsection \<open>Expanded test suites\<close>

text \<open>
  C10. For every suite id \<open>s\<close> and every set \<open>E\<close> of expanded suites, \<open>toggleSuite s\<close>
  removes \<open>s\<close> from \<open>E\<close> when it is a member and adds it otherwise, and toggling the same
  suite twice gives back \<open>E\<close>.
\<close>

theorem toggleSuite_involution:
  "toggleSuite s E = (if s |\<in>| E then E |-| {|s|} else finsert s E)
   \<and> (s |\<in>| toggleSuite s E \<longleftrightarrow> s |\<notin>| E)
   \<and> toggleSuite s (toggleSuite s E) = E"
  by (auto simp: toggleSuite_def)

end
